theory Spec2Isabelle
  imports Complex_Main
begin

section \<open>Numeric model\<close>

text \<open>
  Python floats and the entries of numpy arrays are modelled as real numbers: overflow
  and NaN are outside the model, and so is rounding, except where a statement depends on
  it (the norm of the control velocity, for which the binary64 arithmetic is modelled
  below). The one non-finite value the program writes down, \<^verbatim>\<open>np.inf\<close>, is kept as a
  value of its own.
\<close>

datatype error = IndexError | ValueError | ZeroDivisionError

datatype npfloat = Finite real | PosInf

fun np_square :: "npfloat \<Rightarrow> npfloat" where
  "np_square (Finite x) = Finite (x * x)"
| "np_square PosInf = PosInf"

fun np_plus :: "npfloat \<Rightarrow> npfloat \<Rightarrow> npfloat" where
  "np_plus (Finite x) (Finite y) = Finite (x + y)"
| "np_plus _ _ = PosInf"

fun np_sqrt :: "npfloat \<Rightarrow> npfloat" where
  "np_sqrt (Finite x) = Finite (sqrt x)"
| "np_sqrt PosInf = PosInf"

fun np_le :: "npfloat \<Rightarrow> real \<Rightarrow> bool" where
  "np_le (Finite x) r = (x \<le> r)"
| "np_le PosInf r = False"

text \<open>
  Elementwise addition of two one-dimensional arrays under numpy's broadcasting rule:
  the lengths must agree, or one of them must be 1; anything else raises.
\<close>

definition np_add :: "real list \<Rightarrow> real list \<Rightarrow> error + real list" where
  "np_add a b =
     (if length a = length b then Inr (map2 (+) a b)
      else if length a = 1 then Inr (map (\<lambda>y. hd a + y) b)
      else if length b = 1 then Inr (map (\<lambda>x. x + hd b) a)
      else Inl ValueError)"

text \<open>
  Indexing an axis of length \<open>n\<close> with a Python integer: negative indices count from
  the end, and an index outside \<open>-n .. n - 1\<close> raises IndexError (here \<open>None\<close>).
\<close>

definition np_index :: "nat \<Rightarrow> int \<Rightarrow> nat option" where
  "np_index n i =
     (if 0 \<le> i \<and> i < int n then Some (nat i)
      else if i < 0 \<and> - int n \<le> i then Some (nat (int n + i))
      else None)"

section \<open>swimmer.py\<close>

text \<open>
  A row of \<^verbatim>\<open>poseHist\<close> is \<^verbatim>\<open>[t, x, y, theta]\<close>; the array has the fixed shape
  \<^verbatim>\<open>(lifespan, 4)\<close>, so a row is a 4-tuple and the array a list of rows.
\<close>

type_synonym row = "real \<times> real \<times> real \<times> real"

record Swimmer =
  life :: int
  lifespan :: int
  poseHist :: "row list"

text \<open>
  The slice assignment \<^verbatim>\<open>poseHist[i, 1:] = v\<close>: the value must have three entries, or
  one entry that is broadcast; any other shape raises ValueError.
\<close>

fun assign_pose :: "row \<Rightarrow> real list \<Rightarrow> error + row" where
  "assign_pose (t, _, _, _) [x, y, th] = Inr (t, x, y, th)"
| "assign_pose (t, _, _, _) [v] = Inr (t, v, v, v)"
| "assign_pose _ _ = Inl ValueError"

text \<open>
  \<^verbatim>\<open>Swimmer.__init__\<close>: \<^verbatim>\<open>np.zeros\<close> refuses a negative dimension, and writing
  row 0 of an empty array raises IndexError.
\<close>

definition Swimmer_init :: "real list \<Rightarrow> int \<Rightarrow> error + Swimmer" where
  "Swimmer_init pose n =
     (if n < 0 then Inl ValueError
      else
        let zeros = replicate (nat n) ((0, 0, 0, 0) :: row) in
        case np_index (length zeros) 0 of
          None \<Rightarrow> Inl IndexError
        | Some j \<Rightarrow>
            (case assign_pose (zeros ! j) pose of
               Inl e \<Rightarrow> Inl e
             | Inr r \<Rightarrow> Inr \<lparr>life = 0, lifespan = n, poseHist = zeros[j := r]\<rparr>))"

definition get_pose :: "Swimmer \<Rightarrow> error + real list" where
  "get_pose s =
     (case np_index (length (poseHist s)) (life s) of
        None \<Rightarrow> Inl IndexError
      | Some j \<Rightarrow> (case poseHist s ! j of (t, x, y, th) \<Rightarrow> Inr [x, y, th]))"

text \<open>
  \<^verbatim>\<open>Swimmer.update\<close>. The result is the exception raised, if any, together with the
  state of the object after the call, so that what a failing call has already written
  stays visible.
\<close>

definition update :: "Swimmer \<Rightarrow> real \<Rightarrow> real list \<Rightarrow> real list \<Rightarrow> error option \<times> Swimmer" where
  "update s t vel contVel =
     (if life s \<ge> lifespan s - 1 then (Some IndexError, s)
      else
        (case np_index (length (poseHist s)) (life s) of
           None \<Rightarrow> (Some IndexError, s)
         | Some j \<Rightarrow>
            (case poseHist s ! j of (t0, x, y, th) \<Rightarrow>
               (let dt = t - t0;
                    vel3 = (if length vel = 2 then vel @ [0] else vel)
                in
                (case np_add vel3 contVel of
                   Inl e \<Rightarrow> (Some e, s)
                 | Inr vsum \<Rightarrow>
                    (case np_add [x, y, th] (map (\<lambda>v. v * dt) vsum) of
                       Inl e \<Rightarrow> (Some e, s)
                     | Inr newPose \<Rightarrow>
                        (let s1 = s\<lparr>life := life s + 1\<rparr> in
                         (case np_index (length (poseHist s1)) (life s1) of
                            None \<Rightarrow> (Some IndexError, s1)
                          | Some k \<Rightarrow>
                             (case poseHist s1 ! k of (t1, x1, y1, th1) \<Rightarrow>
                                (let s2 = s1\<lparr>poseHist := (poseHist s1)[k := (t, x1, y1, th1)]\<rparr> in
                                 (case assign_pose (poseHist s2 ! k) newPose of
                                    Inl e \<Rightarrow> (Some e, s2)
                                  | Inr r \<Rightarrow>
                                     (None, s2\<lparr>poseHist := (poseHist s2)[k := r]\<rparr>))))))))))))"

text \<open>
  The recorded part of the buffer, \<^verbatim>\<open>poseHist[: life + 1]\<close> as \<^verbatim>\<open>plot\<close> slices it, and
  its time column.
\<close>

definition history :: "Swimmer \<Rightarrow> row list" where
  "history s = take (nat (life s + 1)) (poseHist s)"

definition timestamps :: "Swimmer \<Rightarrow> real list" where
  "timestamps s = map fst (history s)"

text \<open>
  A sequence of calls \<^verbatim>\<open>update(t, vel, contVel)\<close> on one object, stopping at the first
  exception.
\<close>

fun run_updates :: "Swimmer \<Rightarrow> (real \<times> real list \<times> real list) list \<Rightarrow> error option \<times> Swimmer" where
  "run_updates s [] = (None, s)"
| "run_updates s ((t, vel, contVel) # cs) =
     (case update s t vel contVel of
        (None, s') \<Rightarrow> run_updates s' cs
      | (Some e, s') \<Rightarrow> (Some e, s'))"

text \<open>
  The shape of the object that the constructor establishes and \<^verbatim>\<open>update\<close> keeps: the
  buffer has \<^verbatim>\<open>lifespan\<close> rows and \<^verbatim>\<open>life\<close> indexes one of them.
\<close>

definition wf_swimmer :: "Swimmer \<Rightarrow> bool" where
  "wf_swimmer s = (0 \<le> life s \<and> life s < lifespan s \<and> length (poseHist s) = nat (lifespan s))"

section \<open>Collaborators of controller.py\<close>

text \<open>
  Modelled from the spec: \<^verbatim>\<open>anglefunctions.wrap_to_pi\<close>, whose module is not among the
  sources. The specification gives it as the representative of its argument in the
  half-open interval from \<open>-pi\<close> (excluded) to \<open>pi\<close> (included).
\<close>

definition wrap_to_pi :: "real \<Rightarrow> real" where
  "wrap_to_pi a = a - 2 * pi * of_int \<lceil>(a - pi) / (2 * pi)\<rceil>"

text \<open>
  The flow model \<^verbatim>\<open>flowfield.GyreFlow\<close> is not among the sources either. The controller
  uses one method of it, \<^verbatim>\<open>get_state\<close>, which maps a position array to a pair
  (radius, phase angle); the model takes that method as a field of the object, so that
  every statement about the controller holds for any flow model.
\<close>

record GyreFlow =
  get_state :: "real list \<Rightarrow> real \<times> real"

text \<open>
  Modelled from the spec: the phase state of a vortex-family flow, namely the radius and
  the angle of the position seen from the configured centre, with the angle increasing
  counter-clockwise and lying between \<open>-pi\<close> and \<open>pi\<close>. It serves as a concrete flow
  model in examples. An array with fewer than two entries is not a position; the value
  given for it is never used.
\<close>

definition arctan2 :: "real \<Rightarrow> real \<Rightarrow> real" where
  "arctan2 y x =
     (if 0 < x then arctan (y / x)
      else if x < 0 \<and> 0 \<le> y then arctan (y / x) + pi
      else if x < 0 then arctan (y / x) - pi
      else if 0 < y then pi / 2
      else if y < 0 then - pi / 2
      else 0)"

definition vortex_flow :: "real \<Rightarrow> real \<Rightarrow> GyreFlow" where
  "vortex_flow cx cy =
     \<lparr>get_state = (\<lambda>pos. case pos of
        x # y # rest \<Rightarrow> (sqrt ((x - cx) * (x - cx) + (y - cy) * (y - cy)), arctan2 (y - cy) (x - cx))
      | _ \<Rightarrow> (0, 0))\<rparr>"

section \<open>controller.py\<close>

datatype FlowDirection = IN | OUT

fun FlowDirection_value :: "FlowDirection \<Rightarrow> int" where
  "FlowDirection_value IN = -1"
| "FlowDirection_value OUT = 1"

datatype FlowOrientation = CW | CCW

fun FlowOrientation_value :: "FlowOrientation \<Rightarrow> int" where
  "FlowOrientation_value CW = -1"
| "FlowOrientation_value CCW = 1"

text \<open>The two class attributes of \<^verbatim>\<open>ApproachController\<close>.\<close>

definition time_to_convergence :: int where
  "time_to_convergence = 2"

definition convergence_threshold :: real where
  "convergence_threshold = 0.01"

record ApproachController =
  Kp :: real
  vel_from_thrusters :: real
  flow_model :: GyreFlow
  flow_ori :: FlowOrientation
  flow_dir :: FlowDirection
  convergence_count :: int
  convergence_count_threshold :: real
  r_diff :: npfloat
  theta_diff :: npfloat

text \<open>
  \<^verbatim>\<open>ApproachController.__init__\<close>. The quotient \<^verbatim>\<open>time_to_convergence / time_step\<close> is a
  Python float division, which raises ZeroDivisionError for a zero time step.
\<close>

definition ApproachController_init ::
  "GyreFlow \<Rightarrow> FlowOrientation \<Rightarrow> FlowDirection \<Rightarrow> real \<Rightarrow> error + ApproachController" where
  "ApproachController_init fm ori dr time_step =
     (if time_step = 0 then Inl ZeroDivisionError
      else Inr \<lparr>Kp = 0.5,
                vel_from_thrusters = 0.01,
                flow_model = fm,
                flow_ori = ori,
                flow_dir = dr,
                convergence_count = 0,
                convergence_count_threshold = of_int time_to_convergence / time_step,
                r_diff = PosInf,
                theta_diff = PosInf\<rparr>)"

text \<open>
  \<^verbatim>\<open>ApproachController.get_control_vel\<close> returns the control velocity and leaves the two
  errors in the object; the model returns the velocity and the object after the call.
\<close>

definition get_control_vel ::
  "ApproachController \<Rightarrow> real list \<Rightarrow> real list \<Rightarrow> real list \<times> ApproachController" where
  "get_control_vel c pos targ =
     (case get_state (flow_model c) pos of (r_mob, theta_mob) \<Rightarrow>
      (case get_state (flow_model c) targ of (r_targ, theta_targ) \<Rightarrow>
        (let err = wrap_to_pi (theta_targ - theta_mob) * of_int (FlowOrientation_value (flow_ori c));
             r_des = r_targ + Kp c * err * of_int (FlowDirection_value (flow_dir c));
             dir = (if r_des > r_mob then 1 else -1 :: int);
             control_vel = map (\<lambda>a. of_int dir * vel_from_thrusters c * a)
                               [cos theta_mob, sin theta_mob, 0]
         in (control_vel, c\<lparr>r_diff := Finite (r_targ - r_mob), theta_diff := Finite err\<rparr>))))"

text \<open>
  \<^verbatim>\<open>ApproachController.evaluate_convergence\<close> returns the verdict and updates the dwell
  counter.
\<close>

definition evaluate_convergence :: "ApproachController \<Rightarrow> bool \<times> ApproachController" where
  "evaluate_convergence c =
     (let total_err = np_sqrt (np_plus (np_square (r_diff c)) (np_square (theta_diff c)));
          c' = (if np_le total_err convergence_threshold
                then c\<lparr>convergence_count := convergence_count c + 1\<rparr>
                else c\<lparr>convergence_count := 0\<rparr>)
      in (of_int (convergence_count c') \<ge> convergence_count_threshold c', c'))"

text \<open>
  The two methods are the only code that writes to a controller. A controller in use is
  the constructor's object after some sequence of calls to them.
\<close>

datatype call = Get_control_vel "real list" "real list" | Evaluate_convergence

fun run_call :: "ApproachController \<Rightarrow> call \<Rightarrow> ApproachController" where
  "run_call c (Get_control_vel pos targ) = snd (get_control_vel c pos targ)"
| "run_call c Evaluate_convergence = snd (evaluate_convergence c)"

definition run_calls :: "ApproachController \<Rightarrow> call list \<Rightarrow> ApproachController" where
  "run_calls c cs = foldl run_call c cs"

text \<open>
  A convergence evaluation fed with given errors: the two errors are stored, as
  \<^verbatim>\<open>get_control_vel\<close> stores them, and \<^verbatim>\<open>evaluate_convergence\<close> is called. The verdicts
  of a sequence of such evaluations are collected in order.
\<close>

fun feed :: "ApproachController \<Rightarrow> (real \<times> real) list \<Rightarrow> bool list \<times> ApproachController" where
  "feed c [] = ([], c)"
| "feed c ((r, th) # es) =
     (case evaluate_convergence (c\<lparr>r_diff := Finite r, theta_diff := Finite th\<rparr>) of
        (b, c') \<Rightarrow> (case feed c' es of (bs, c'') \<Rightarrow> (b # bs, c'')))"

section \<open>Binary64 arithmetic of the control velocity\<close>






section \<open>Properties of the swimmer\<close>

subsection \<open>Auxiliary facts\<close>

lemma np_index_in_range: "0 \<le> i \<Longrightarrow> i < int n \<Longrightarrow> np_index n i = Some (nat i)"
  by (simp add: np_index_def)

lemma assign_pose_fst: "assign_pose r v = Inr r' \<Longrightarrow> fst r' = fst r"
  by (cases "(r, v)" rule: assign_pose.cases) auto

lemma update_exhausted:
  "life s \<ge> lifespan s - 1 \<Longrightarrow> update s t vel contVel = (Some IndexError, s)"
  by (simp add: update_def)

lemma update_vec3:
  assumes wf: "wf_swimmer s"
    and alive: "life s < lifespan s - 1"
    and row: "poseHist s ! nat (life s) = (t0, x, y, th)"
  shows "update s t [vx, vy, vw] [cx, cy, cw] =
           (None, s\<lparr>life := life s + 1,
                    poseHist := (poseHist s)[nat (life s + 1) :=
                      (t, x + (vx + cx) * (t - t0), y + (vy + cy) * (t - t0), th + (vw + cw) * (t - t0))]\<rparr>)"
proof -
  from wf alive have i0: "np_index (length (poseHist s)) (life s) = Some (nat (life s))"
    by (simp add: wf_swimmer_def np_index_in_range)
  from wf alive have i1: "np_index (length (poseHist s)) (life s + 1) = Some (nat (life s + 1))"
    by (simp add: wf_swimmer_def np_index_in_range)
  from wf alive have len: "nat (life s + 1) < length (poseHist s)"
    by (simp add: wf_swimmer_def)
  obtain t1 x1 y1 th1 where r1: "poseHist s ! nat (life s + 1) = (t1, x1, y1, th1)"
    by (cases "poseHist s ! nat (life s + 1)") auto
  from alive show ?thesis
    by (simp add: update_def i0 i1 row r1 len np_add_def Let_def)
qed

lemma update_vec2: "update s t [vx, vy] contVel = update s t [vx, vy, 0] contVel"
proof -
  have "(if length [vx, vy] = 2 then [vx, vy] @ [0] else [vx, vy]) =
        (if length [vx, vy, 0 :: real] = 2 then [vx, vy, 0] @ [0] else [vx, vy, 0])"
    by simp
  then show ?thesis
    unfolding update_def by presburger
qed

lemma init_ok:
  assumes "0 < n"
  shows "Swimmer_init [x, y, th] n =
           Inr \<lparr>life = 0, lifespan = n, poseHist = (0, x, y, th) # replicate (nat n - 1) (0, 0, 0, 0)\<rparr>"
proof -
  from assms obtain m where m: "nat n = Suc m"
    by (cases "nat n") auto
  with assms show ?thesis
    by (simp add: Swimmer_init_def np_index_def Let_def)
qed

lemma init_wf:
  assumes "Swimmer_init pose n = Inr s"
  shows "wf_swimmer s \<and> life s = 0 \<and> lifespan s = n \<and> timestamps s = [0]"
proof -
  from assms have pos: "0 < n"
    by (cases "n = 0") (auto simp: Swimmer_init_def np_index_def Let_def split: if_splits)
  then obtain m where m: "nat n = Suc m"
    by (cases "nat n") auto
  from assms pos m obtain r where r: "assign_pose (0, 0, 0, 0) pose = Inr r"
    and s: "s = \<lparr>life = 0, lifespan = n, poseHist = r # replicate m (0, 0, 0, 0)\<rparr>"
    by (auto simp: Swimmer_init_def np_index_def Let_def split: sum.splits)
  from r have "fst r = 0"
    by (cases "((0, 0, 0, 0) :: row, pose)" rule: assign_pose.cases) auto
  with s pos m show ?thesis
    by (simp add: wf_swimmer_def timestamps_def history_def)
qed

lemma update_success:
  assumes wf: "wf_swimmer s"
    and ok: "update s t vel contVel = (None, s')"
  shows "wf_swimmer s' \<and> lifespan s' = lifespan s \<and> life s' = life s + 1 \<and>
         timestamps s' = timestamps s @ [t]"
proof -
  from ok have alive: "life s < lifespan s - 1"
    by (cases "life s < lifespan s - 1") (auto simp: update_def)
  from wf alive have i0: "np_index (length (poseHist s)) (life s) = Some (nat (life s))"
    by (simp add: wf_swimmer_def np_index_in_range)
  from wf alive have i1: "np_index (length (poseHist s)) (life s + 1) = Some (nat (life s + 1))"
    by (simp add: wf_swimmer_def np_index_in_range)
  from wf alive have len: "nat (life s + 1) < length (poseHist s)"
    by (simp add: wf_swimmer_def)
  from ok alive have "\<exists>r. fst r = t \<and>
      s' = s\<lparr>life := life s + 1, poseHist := (poseHist s)[nat (life s + 1) := r]\<rparr>"
    apply (auto simp: update_def i0 i1 Let_def len split: prod.splits sum.splits
             dest!: assign_pose_fst)
    apply (intro exI)
    apply (rule refl)
    done
  then obtain r where r: "fst r = t"
    and s': "s' = s\<lparr>life := life s + 1, poseHist := (poseHist s)[nat (life s + 1) := r]\<rparr>"
    by blast
  from wf alive have n1: "nat (life s + 1 + 1) = Suc (nat (life s + 1))"
    by (simp add: wf_swimmer_def nat_add_distrib)
  have "take (Suc (nat (life s + 1))) ((poseHist s)[nat (life s + 1) := r]) =
        take (nat (life s + 1)) (poseHist s) @ [r]"
    using len by (simp add: take_Suc_conv_app_nth)
  with wf alive r s' n1 show ?thesis
    by (simp add: wf_swimmer_def timestamps_def history_def)
qed

lemma run_updates_success:
  "wf_swimmer s \<Longrightarrow> run_updates s cs = (None, s') \<Longrightarrow>
     wf_swimmer s' \<and> lifespan s' = lifespan s \<and> life s' = life s + int (length cs) \<and>
     timestamps s' = timestamps s @ map fst cs"
proof (induction cs arbitrary: s)
  case Nil
  then show ?case by simp
next
  case (Cons c cs)
  obtain t vel contVel where c: "c = (t, vel, contVel)"
    by (cases c) auto
  from Cons.prems(2) c obtain s1 where u: "update s t vel contVel = (None, s1)"
    and rest: "run_updates s1 cs = (None, s')"
    by (auto split: prod.splits option.splits)
  from update_success [OF Cons.prems(1) u] Cons.IH [OF _ rest] c show ?case
    by simp
qed

lemma update_shapes_ok:
  assumes wf: "wf_swimmer s"
    and alive: "life s < lifespan s - 1"
    and v: "length vel = 2 \<or> length vel = 3"
    and c: "length contVel = 3"
  shows "fst (update s t vel contVel) = None"
proof -
  obtain t0 x y th where row: "poseHist s ! nat (life s) = (t0, x, y, th)"
    by (cases "poseHist s ! nat (life s)") auto
  from c obtain cx cy cw where cv: "contVel = [cx, cy, cw]"
    by (auto simp: length_Suc_conv numeral_3_eq_3)
  from v show ?thesis
  proof
    assume "length vel = 2"
    then obtain vx vy where "vel = [vx, vy]"
      by (auto simp: length_Suc_conv numeral_2_eq_2)
    with update_vec3 [OF wf alive row] cv show ?thesis
      by (simp add: update_vec2)
  next
    assume "length vel = 3"
    then obtain vx vy vw where "vel = [vx, vy, vw]"
      by (auto simp: length_Suc_conv numeral_3_eq_3)
    with update_vec3 [OF wf alive row] cv show ?thesis
      by simp
  qed
qed

lemma run_updates_shapes_ok:
  "wf_swimmer s \<Longrightarrow> life s + int (length cs) \<le> lifespan s - 1 \<Longrightarrow>
   list_all (\<lambda>(t, vel, contVel). (length vel = 2 \<or> length vel = 3) \<and> length contVel = 3) cs \<Longrightarrow>
   fst (run_updates s cs) = None"
proof (induction cs arbitrary: s)
  case Nil
  then show ?case by simp
next
  case (Cons c cs)
  obtain t vel contVel where c: "c = (t, vel, contVel)"
    by (cases c) auto
  from Cons.prems c have alive: "life s < lifespan s - 1"
    and v: "length vel = 2 \<or> length vel = 3" and cv: "length contVel = 3"
    by auto
  from update_shapes_ok [OF Cons.prems(1) alive v cv, of t]
  obtain s1 where u: "update s t vel contVel = (None, s1)"
    by (cases "update s t vel contVel") auto
  from update_success [OF Cons.prems(1) u] Cons.prems
  have "fst (run_updates s1 cs) = None"
    by (intro Cons.IH) auto
  with u c show ?case by simp
qed

lemma history_length: "wf_swimmer s \<Longrightarrow> length (history s) = nat (life s + 1)"
  by (auto simp: history_def wf_swimmer_def)

subsection \<open>Exhaustion\<close>

text \<open>
  C3: for every positive \<open>N\<close>, a swimmer constructed with \<open>lifespan = N\<close> from a pose
  \<open>[x, y, th]\<close> completes \<open>N - 1\<close> successive calls of \<open>update\<close> (velocities of two or
  three components, control velocities of three) without an exception, and then every
  further call, the \<open>N\<close>-th, raises the IndexError of the lifespan check.
\<close>

theorem swimmer_exhaustion:
  assumes "0 < N"
    and "int (length cs) = N - 1"
    and "list_all (\<lambda>(t, vel, contVel). (length vel = 2 \<or> length vel = 3) \<and> length contVel = 3) cs"
  shows "\<exists>s0 s. Swimmer_init [x, y, th] N = Inr s0 \<and>
                run_updates s0 cs = (None, s) \<and>
                life s = N - 1 \<and>
                (\<forall>t vel contVel. update s t vel contVel = (Some IndexError, s))"
proof -
  from init_ok [OF assms(1)] obtain s0 where s0: "Swimmer_init [x, y, th] N = Inr s0"
    by blast
  from init_wf [OF s0] have wf0: "wf_swimmer s0" and l0: "life s0 = 0" and n0: "lifespan s0 = N"
    by simp_all
  from assms(2) l0 n0 have "life s0 + int (length cs) \<le> lifespan s0 - 1"
    by simp
  from run_updates_shapes_ok [OF wf0 this assms(3)]
  obtain s where run: "run_updates s0 cs = (None, s)"
    by (cases "run_updates s0 cs") auto
  from run_updates_success [OF wf0 run] l0 n0 assms(2)
  have ls: "life s = N - 1" and ns: "lifespan s = N"
    by simp_all
  then have "\<forall>t vel contVel. update s t vel contVel = (Some IndexError, s)"
    by (simp add: update_exhausted)
  with s0 run ls show ?thesis
    by blast
qed

text \<open>
  The theorem at \<open>N = 3\<close>, on the two calls of the shape \<^verbatim>\<open>main\<close> makes: both succeed and
  the third raises.
\<close>

theorem swimmer_exhaustion_witness:
  "(0 :: int) < 3 \<and>
   Swimmer_init [0, 0, 0] 3 =
     Inr \<lparr>life = 0, lifespan = 3, poseHist = [(0, 0, 0, 0), (0, 0, 0, 0), (0, 0, 0, 0)]\<rparr> \<and>
   run_updates \<lparr>life = 0, lifespan = 3, poseHist = [(0, 0, 0, 0), (0, 0, 0, 0), (0, 0, 0, 0)]\<rparr>
       [(1, [0, 1, 0], [0, 0, 0]), (2, [0, 1], [0, 0, 0])] =
     (None, \<lparr>life = 2, lifespan = 3, poseHist = [(0, 0, 0, 0), (1, 0, 1, 0), (2, 0, 2, 0)]\<rparr>) \<and>
   update \<lparr>life = 2, lifespan = 3, poseHist = [(0, 0, 0, 0), (1, 0, 1, 0), (2, 0, 2, 0)]\<rparr>
       3 [0, 1, 0] [0, 0, 0] =
     (Some IndexError,
      \<lparr>life = 2, lifespan = 3, poseHist = [(0, 0, 0, 0), (1, 0, 1, 0), (2, 0, 2, 0)]\<rparr>)"
  using swimmer_exhaustion
    [of 3 "[(1, [0, 1, 0], [0, 0, 0]), (2, [0, 1], [0, 0, 0])]" 0 0 0]
  by (simp add: Swimmer_init_def update_def np_index_def np_add_def Let_def numeral_3_eq_3)

text \<open>
  C8: a call of \<open>update\<close> on an exhausted swimmer (\<open>life \<ge> lifespan - 1\<close>) raises before
  it writes anything: the object after the call is the object before it, in particular
  \<open>life\<close> and the whole of \<open>poseHist\<close>.
\<close>

theorem update_exhausted_unchanged:
  assumes "life s \<ge> lifespan s - 1"
  shows "fst (update s t vel contVel) = Some IndexError \<and>
         snd (update s t vel contVel) = s \<and>
         life (snd (update s t vel contVel)) = life s \<and>
         poseHist (snd (update s t vel contVel)) = poseHist s"
  using assms by (simp add: update_def)

theorem update_exhausted_unchanged_witness:
  "life \<lparr>life = 0, lifespan = 1, poseHist = [(0, 1, 2, 3)]\<rparr>
     \<ge> lifespan \<lparr>life = 0, lifespan = 1, poseHist = [(0, 1, 2, 3)]\<rparr> - 1 \<and>
   update \<lparr>life = 0, lifespan = 1, poseHist = [(0, 1, 2, 3)]\<rparr> 1 [0, 1, 0] [0, 0, 0] =
     (Some IndexError, \<lparr>life = 0, lifespan = 1, poseHist = [(0, 1, 2, 3)]\<rparr>)"
  using update_exhausted_unchanged
    [of "\<lparr>life = 0, lifespan = 1, poseHist = [(0, 1, 2, 3)]\<rparr>" 1 "[0, 1, 0]" "[0, 0, 0]"]
  by (simp add: prod_eq_iff)

subsection \<open>The integration step\<close>

text \<open>
  C5: on a swimmer that is not exhausted, \<open>update\<close> at time \<open>t\<close> takes \<open>dt = t - t0\<close>, where
  \<open>t0\<close> is the time stamp of the current row, writes the row
  (\<open>t\<close>, current pose + (\<open>vel + contVel\<close>) * \<open>dt\<close>) behind the current one, which appends it
  to the recorded history, and advances \<open>life\<close> by one. A flow velocity of two components
  behaves as the same velocity with a third component 0.
\<close>

theorem update_euler_step:
  assumes "wf_swimmer s"
    and "life s < lifespan s - 1"
    and "poseHist s ! nat (life s) = (t0, x, y, th)"
  shows "update s t [vx, vy, vw] [cx, cy, cw] =
           (None, s\<lparr>life := life s + 1,
                    poseHist := (poseHist s)[nat (life s + 1) :=
                      (t, x + (vx + cx) * (t - t0), y + (vy + cy) * (t - t0),
                          th + (vw + cw) * (t - t0))]\<rparr>)
         \<and> update s t [vx, vy] [cx, cy, cw] = update s t [vx, vy, 0] [cx, cy, cw]
         \<and> history (snd (update s t [vx, vy, vw] [cx, cy, cw])) =
             history s @ [(t, x + (vx + cx) * (t - t0), y + (vy + cy) * (t - t0),
                              th + (vw + cw) * (t - t0))]"
proof -
  let ?r = "(t, x + (vx + cx) * (t - t0), y + (vy + cy) * (t - t0), th + (vw + cw) * (t - t0))"
  have u: "update s t [vx, vy, vw] [cx, cy, cw] =
             (None, s\<lparr>life := life s + 1, poseHist := (poseHist s)[nat (life s + 1) := ?r]\<rparr>)"
    by (rule update_vec3 [OF assms])
  from assms(1,2) have len: "nat (life s + 1) < length (poseHist s)"
    by (simp add: wf_swimmer_def)
  from assms(1,2) have n1: "nat (life s + 1 + 1) = Suc (nat (life s + 1))"
    by (simp add: wf_swimmer_def nat_add_distrib)
  have "take (Suc (nat (life s + 1))) ((poseHist s)[nat (life s + 1) := ?r]) =
        take (nat (life s + 1)) (poseHist s) @ [?r]"
    using len by (simp add: take_Suc_conv_app_nth)
  with u n1 show ?thesis
    by (simp add: history_def update_vec2)
qed

theorem update_euler_step_witness:
  "wf_swimmer \<lparr>life = 0, lifespan = 2, poseHist = [(1, 2, 3, 4), (0, 0, 0, 0)]\<rparr> \<and>
   update \<lparr>life = 0, lifespan = 2, poseHist = [(1, 2, 3, 4), (0, 0, 0, 0)]\<rparr> 3 [1, 2, 3] [4, 5, 6] =
     (None, \<lparr>life = 1, lifespan = 2, poseHist = [(1, 2, 3, 4), (3, 12, 17, 22)]\<rparr>) \<and>
   update \<lparr>life = 0, lifespan = 2, poseHist = [(1, 2, 3, 4), (0, 0, 0, 0)]\<rparr> 3 [1, 2] [4, 5, 6] =
     (None, \<lparr>life = 1, lifespan = 2, poseHist = [(1, 2, 3, 4), (3, 12, 17, 16)]\<rparr>)"
  using update_euler_step
    [of "\<lparr>life = 0, lifespan = 2, poseHist = [(1, 2, 3, 4), (0, 0, 0, 0)]\<rparr>" 1 2 3 4 3 1 2 3 4 5 6]
    update_euler_step
    [of "\<lparr>life = 0, lifespan = 2, poseHist = [(1, 2, 3, 4), (0, 0, 0, 0)]\<rparr>" 1 2 3 4 3 1 2 0 4 5 6]
  by (simp add: wf_swimmer_def)

subsection \<open>The recorded history\<close>

text \<open>
  C6, as the claim states it, fails: \<open>update\<close> never compares \<open>t\<close> with the last time
  stamp. On a swimmer of lifespan 3, the calls at the times 2 and then 1 both succeed and
  leave the time stamps 0, 2, 1.
\<close>

theorem timestamps_increasing_counterexample:
  "Swimmer_init [0, 0, 0] 3 =
     Inr \<lparr>life = 0, lifespan = 3, poseHist = [(0, 0, 0, 0), (0, 0, 0, 0), (0, 0, 0, 0)]\<rparr> \<and>
   run_updates \<lparr>life = 0, lifespan = 3, poseHist = [(0, 0, 0, 0), (0, 0, 0, 0), (0, 0, 0, 0)]\<rparr>
       [(2, [0, 1, 0], [0, 0, 0]), (1, [0, 1, 0], [0, 0, 0])] =
     (None, \<lparr>life = 2, lifespan = 3, poseHist = [(0, 0, 0, 0), (2, 0, 2, 0), (1, 0, 1, 0)]\<rparr>) \<and>
   timestamps \<lparr>life = 2, lifespan = 3, poseHist = [(0, 0, 0, 0), (2, 0, 2, 0), (1, 0, 1, 0)]\<rparr>
     = [0, 2, 1] \<and>
   \<not> sorted_wrt (<) (timestamps
        \<lparr>life = 2, lifespan = 3, poseHist = [(0, 0, 0, 0), (2, 0, 2, 0), (1, 0, 1, 0)]\<rparr>)"
  by (simp add: Swimmer_init_def update_def np_index_def np_add_def Let_def numeral_3_eq_3
        timestamps_def history_def)

text \<open>
  C6, amended: after any sequence of successful calls of \<open>update\<close> on a constructed
  swimmer, the recorded time stamps are the initial 0 followed by the times of the calls
  in call order, hence strictly increasing exactly when the caller's times are strictly
  increasing and positive; the recorded history has one row more than there were calls and
  never more rows than the lifespan; and once it has as many rows as the lifespan, every
  further call raises IndexError and leaves the object as it was.
\<close>

theorem history_invariant:
  assumes "Swimmer_init pose N = Inr s0"
    and "run_updates s0 cs = (None, s)"
  shows "timestamps s = 0 # map fst cs \<and>
         (sorted_wrt (<) (timestamps s) \<longleftrightarrow> sorted_wrt (<) (0 # map fst cs)) \<and>
         length (history s) = length cs + 1 \<and>
         int (length (history s)) \<le> N \<and>
         lifespan s = N \<and>
         (int (length (history s)) = N \<longrightarrow>
            (\<forall>t vel contVel. update s t vel contVel = (Some IndexError, s)))"
proof -
  from init_wf [OF assms(1)]
  have wf0: "wf_swimmer s0" and l0: "life s0 = 0" and n0: "lifespan s0 = N"
    and t0: "timestamps s0 = [0]"
    by simp_all
  from run_updates_success [OF wf0 assms(2)] l0 n0 t0
  have wf: "wf_swimmer s" and ns: "lifespan s = N" and ls: "life s = int (length cs)"
    and ts: "timestamps s = 0 # map fst cs"
    by simp_all
  from history_length [OF wf] ls have hl: "length (history s) = length cs + 1"
    by (simp add: nat_add_distrib)
  from wf ns ls hl have bound: "int (length (history s)) \<le> N"
    by (simp add: wf_swimmer_def)
  have "int (length (history s)) = N \<longrightarrow>
          (\<forall>t vel contVel. update s t vel contVel = (Some IndexError, s))"
    using hl ls ns by (simp add: update_exhausted)
  with ts hl bound ns show ?thesis
    by simp
qed

theorem history_invariant_witness:
  "Swimmer_init [0, 0, 0] 3 =
     Inr \<lparr>life = 0, lifespan = 3, poseHist = [(0, 0, 0, 0), (0, 0, 0, 0), (0, 0, 0, 0)]\<rparr> \<and>
   run_updates \<lparr>life = 0, lifespan = 3, poseHist = [(0, 0, 0, 0), (0, 0, 0, 0), (0, 0, 0, 0)]\<rparr>
       [(1, [0, 1, 0], [0, 0, 0]), (2, [0, 1, 0], [0, 0, 0])] =
     (None, \<lparr>life = 2, lifespan = 3, poseHist = [(0, 0, 0, 0), (1, 0, 1, 0), (2, 0, 2, 0)]\<rparr>) \<and>
   timestamps \<lparr>life = 2, lifespan = 3, poseHist = [(0, 0, 0, 0), (1, 0, 1, 0), (2, 0, 2, 0)]\<rparr>
     = [0, 1, 2] \<and>
   sorted_wrt (<) [0, 1, 2 :: real] \<and>
   int (length (history \<lparr>life = 2, lifespan = 3,
                         poseHist = [(0, 0, 0, 0), (1, 0, 1, 0), (2, 0, 2, 0)]\<rparr>)) = 3 \<and>
   update \<lparr>life = 2, lifespan = 3, poseHist = [(0, 0, 0, 0), (1, 0, 1, 0), (2, 0, 2, 0)]\<rparr>
       3 [0, 1, 0] [0, 0, 0] =
     (Some IndexError,
      \<lparr>life = 2, lifespan = 3, poseHist = [(0, 0, 0, 0), (1, 0, 1, 0), (2, 0, 2, 0)]\<rparr>)"
  using history_invariant
    [of "[0, 0, 0]" 3
        "\<lparr>life = 0, lifespan = 3, poseHist = [(0, 0, 0, 0), (0, 0, 0, 0), (0, 0, 0, 0)]\<rparr>"
        "[(1, [0, 1, 0], [0, 0, 0]), (2, [0, 1, 0], [0, 0, 0])]"
        "\<lparr>life = 2, lifespan = 3, poseHist = [(0, 0, 0, 0), (1, 0, 1, 0), (2, 0, 2, 0)]\<rparr>"]
  by (simp add: Swimmer_init_def update_def np_index_def np_add_def Let_def numeral_3_eq_3
        timestamps_def history_def)

section \<open>Properties of the controller\<close>

subsection \<open>Auxiliary facts\<close>

lemma run_call_fields:
  "Kp (run_call c k) = Kp c \<and>
   vel_from_thrusters (run_call c k) = vel_from_thrusters c \<and>
   flow_model (run_call c k) = flow_model c \<and>
   flow_ori (run_call c k) = flow_ori c \<and>
   flow_dir (run_call c k) = flow_dir c \<and>
   convergence_count_threshold (run_call c k) = convergence_count_threshold c"
  by (cases k) (simp_all add: get_control_vel_def evaluate_convergence_def Let_def split: prod.splits)

lemma run_calls_fields:
  "Kp (run_calls c cs) = Kp c \<and>
   vel_from_thrusters (run_calls c cs) = vel_from_thrusters c \<and>
   flow_model (run_calls c cs) = flow_model c \<and>
   flow_ori (run_calls c cs) = flow_ori c \<and>
   flow_dir (run_calls c cs) = flow_dir c \<and>
   convergence_count_threshold (run_calls c cs) = convergence_count_threshold c"
  unfolding run_calls_def
  by (induction cs arbitrary: c) (simp_all add: run_call_fields)

lemma init_fields:
  assumes "ApproachController_init fm ori dr time_step = Inr c"
  shows "Kp c = 1 / 2 \<and> vel_from_thrusters c = 1 / 100 \<and> flow_model c = fm \<and>
         flow_ori c = ori \<and> flow_dir c = dr \<and> convergence_count c = 0 \<and>
         convergence_count_threshold c = 2 / time_step \<and>
         r_diff c = PosInf \<and> theta_diff c = PosInf \<and> time_step \<noteq> 0"
  using assms
  by (auto simp: ApproachController_init_def time_to_convergence_def split: if_splits)

subsection \<open>What a control step writes\<close>

text \<open>
  C9: a call of \<open>get_control_vel\<close> changes no field of the controller other than \<open>r_diff\<close>
  and \<open>theta_diff\<close>: the dwell counter, its threshold, the gain, the thruster speed, the
  flow model and the orientation and direction settings are as before the call.
\<close>

theorem get_control_vel_frame:
  "snd (get_control_vel c pos targ) =
     c\<lparr>r_diff := r_diff (snd (get_control_vel c pos targ)),
       theta_diff := theta_diff (snd (get_control_vel c pos targ))\<rparr> \<and>
   convergence_count (snd (get_control_vel c pos targ)) = convergence_count c \<and>
   convergence_count_threshold (snd (get_control_vel c pos targ)) = convergence_count_threshold c \<and>
   Kp (snd (get_control_vel c pos targ)) = Kp c \<and>
   vel_from_thrusters (snd (get_control_vel c pos targ)) = vel_from_thrusters c \<and>
   flow_model (snd (get_control_vel c pos targ)) = flow_model c \<and>
   flow_ori (snd (get_control_vel c pos targ)) = flow_ori c \<and>
   flow_dir (snd (get_control_vel c pos targ)) = flow_dir c"
  by (simp add: get_control_vel_def Let_def split: prod.splits)

subsection \<open>A concrete controller\<close>

text \<open>
  A vortex centred at the origin, a counter-clockwise inward controller with time step
  0.1, the mobile swimmer at (0, 1) with heading 0 and the target at (2, 0): the phase
  angle of the mobile swimmer is \<open>pi / 2\<close>, and the control velocity points along it.
\<close>

lemma wrap_to_pi_principal: "- pi < a \<Longrightarrow> a \<le> pi \<Longrightarrow> wrap_to_pi a = a"
proof -
  assume lo: "- pi < a" and hi: "a \<le> pi"
  have "\<lceil>(a - pi) / (2 * pi)\<rceil> = 0"
  proof (rule ceiling_unique)
    from lo have "- (2 * pi) < a - pi" by simp
    then have "- (2 * pi) / (2 * pi) < (a - pi) / (2 * pi)"
      by (intro divide_strict_right_mono) simp_all
    then show "of_int 0 - 1 < (a - pi) / (2 * pi)" by simp
    from hi have "a - pi \<le> 0" by simp
    then have "(a - pi) / (2 * pi) \<le> 0"
      by (intro divide_nonpos_pos) simp_all
    then show "(a - pi) / (2 * pi) \<le> of_int 0" by simp
  qed
  then show ?thesis by (simp add: wrap_to_pi_def)
qed

lemma run_calls_Nil: "run_calls c [] = c"
  by (simp add: run_calls_def)

lemma example_init:
  "ApproachController_init (vortex_flow 0 0) CCW IN (1 / 10) =
     Inr \<lparr>Kp = 1 / 2, vel_from_thrusters = 1 / 100, flow_model = vortex_flow 0 0,
          flow_ori = CCW, flow_dir = IN, convergence_count = 0,
          convergence_count_threshold = 20, r_diff = PosInf, theta_diff = PosInf\<rparr>"
  by (simp add: ApproachController_init_def time_to_convergence_def)

lemma example_states:
  "get_state (vortex_flow 0 0) [0, 1, 0] = (1, pi / 2)"
  "get_state (vortex_flow 0 0) [2, 0, 0] = (2, 0)"
  by (simp_all add: vortex_flow_def arctan2_def)

lemma example_step:
  "get_control_vel
     \<lparr>Kp = 1 / 2, vel_from_thrusters = 1 / 100, flow_model = vortex_flow 0 0,
      flow_ori = CCW, flow_dir = IN, convergence_count = 0,
      convergence_count_threshold = 20, r_diff = PosInf, theta_diff = PosInf\<rparr>
     [0, 1, 0] [2, 0, 0] =
   ([0, 1 / 100, 0],
    \<lparr>Kp = 1 / 2, vel_from_thrusters = 1 / 100, flow_model = vortex_flow 0 0,
      flow_ori = CCW, flow_dir = IN, convergence_count = 0,
      convergence_count_threshold = 20, r_diff = Finite 1, theta_diff = Finite (- (pi / 2))\<rparr>)"
proof -
  have w: "wrap_to_pi (- (pi / 2)) = - (pi / 2)"
    using pi_gt_zero by (intro wrap_to_pi_principal) linarith+
  have p: "(1 :: real) < 2 + pi / 4"
    using pi_gt_zero by linarith
  show ?thesis
    using p by (simp add: get_control_vel_def example_states w Let_def)
qed

subsection \<open>The control law\<close>

text \<open>
  C1, as the claim states it, fails: \<open>get_control_vel\<close> takes the angle of the thrust from
  \<open>get_state\<close>, the phase angle of the mobile position, and never reads the orientation
  entry of the pose. With the mobile pose \<open>[0, 1, 0]\<close> (heading 0, phase angle \<open>pi / 2\<close>)
  the control velocity is \<open>[0, 0.01, 0]\<close>, which is neither \<open>0.01 * (cos 0, sin 0, 0)\<close>
  nor its negative.
\<close>

theorem thrust_along_heading_counterexample:
  "ApproachController_init (vortex_flow 0 0) CCW IN (1 / 10) = Inr \<lparr>Kp = 1 / 2, vel_from_thrusters = 1 / 100, flow_model = vortex_flow 0 0,
      flow_ori = CCW, flow_dir = IN, convergence_count = 0,
      convergence_count_threshold = 20, r_diff = PosInf, theta_diff = PosInf\<rparr> \<and>
   [0, 1, 0 :: real] ! 2 = 0 \<and>
   fst (get_control_vel \<lparr>Kp = 1 / 2, vel_from_thrusters = 1 / 100, flow_model = vortex_flow 0 0,
      flow_ori = CCW, flow_dir = IN, convergence_count = 0,
      convergence_count_threshold = 20, r_diff = PosInf, theta_diff = PosInf\<rparr> [0, 1, 0] [2, 0, 0]) = [0, 1 / 100, 0] \<and>
   fst (get_control_vel \<lparr>Kp = 1 / 2, vel_from_thrusters = 1 / 100, flow_model = vortex_flow 0 0,
      flow_ori = CCW, flow_dir = IN, convergence_count = 0,
      convergence_count_threshold = 20, r_diff = PosInf, theta_diff = PosInf\<rparr> [0, 1, 0] [2, 0, 0]) \<noteq>
     [1 * 0.01 * cos ([0, 1, 0] ! 2), 1 * 0.01 * sin ([0, 1, 0] ! 2), 0] \<and>
   fst (get_control_vel \<lparr>Kp = 1 / 2, vel_from_thrusters = 1 / 100, flow_model = vortex_flow 0 0,
      flow_ori = CCW, flow_dir = IN, convergence_count = 0,
      convergence_count_threshold = 20, r_diff = PosInf, theta_diff = PosInf\<rparr> [0, 1, 0] [2, 0, 0]) \<noteq>
     [- 1 * 0.01 * cos ([0, 1, 0] ! 2), - 1 * 0.01 * sin ([0, 1, 0] ! 2), 0]"
  by (simp add: example_init example_step)

text \<open>
  C1, amended: for every pair of input positions, the control velocity of a constructed
  controller is a thrust of the fixed magnitude 0.01 along the phase angle that the flow
  model's \<open>get_state\<close> returns for the mobile position:
  \<open>thrust_sign * 0.01 * (cos theta_mobile, sin theta_mobile, 0)\<close> with \<open>thrust_sign\<close> either
  1 or -1.
\<close>

theorem thrust_along_phase_angle:
  assumes "ApproachController_init fm ori dr time_step = Inr c0"
    and "get_state fm pos = (r_mobile, theta_mobile)"
  shows "\<exists>thrust_sign \<in> {1, - 1}.
           fst (get_control_vel (run_calls c0 cs) pos targ) =
             [thrust_sign * 0.01 * cos theta_mobile, thrust_sign * 0.01 * sin theta_mobile, 0]"
proof -
  from init_fields [OF assms(1)] run_calls_fields [of c0 cs]
  have f: "vel_from_thrusters (run_calls c0 cs) = 1 / 100" "flow_model (run_calls c0 cs) = fm"
    by simp_all
  show ?thesis
    by (simp add: get_control_vel_def f assms(2) Let_def split: prod.splits)
qed

theorem thrust_along_phase_angle_witness:
  "ApproachController_init (vortex_flow 0 0) CCW IN (1 / 10) = Inr \<lparr>Kp = 1 / 2, vel_from_thrusters = 1 / 100, flow_model = vortex_flow 0 0,
      flow_ori = CCW, flow_dir = IN, convergence_count = 0,
      convergence_count_threshold = 20, r_diff = PosInf, theta_diff = PosInf\<rparr> \<and>
   get_state (vortex_flow 0 0) [0, 1, 0] = (1, pi / 2) \<and>
   (\<exists>thrust_sign \<in> {1, - 1}.
      fst (get_control_vel \<lparr>Kp = 1 / 2, vel_from_thrusters = 1 / 100, flow_model = vortex_flow 0 0,
      flow_ori = CCW, flow_dir = IN, convergence_count = 0,
      convergence_count_threshold = 20, r_diff = PosInf, theta_diff = PosInf\<rparr> [0, 1, 0] [2, 0, 0]) =
        [thrust_sign * 0.01 * cos (pi / 2), thrust_sign * 0.01 * sin (pi / 2), 0])"
  using thrust_along_phase_angle [OF example_init example_states(1), of "[]" "[2, 0, 0]"]
  by (simp add: example_init example_states run_calls_Nil)

text \<open>
  C2: with the phase states \<open>(r_mobile, theta_mobile)\<close> and \<open>(r_target, theta_target)\<close> of the
  two positions, \<open>get_control_vel\<close> on a constructed controller computes
  \<open>err = wrap_to_pi (theta_target - theta_mobile) * orientation_sign\<close> (-1 for CW, 1 for CCW),
  \<open>r_des = r_target + Kp * err * direction_sign\<close> (-1 for IN, 1 for OUT) and the thrust sign
  1 if \<open>r_des > r_mobile\<close> and -1 otherwise, with \<open>Kp = 0.5\<close> and the speed 0.01; it stores
  \<open>r_target - r_mobile\<close> and \<open>err\<close>.
\<close>

theorem control_law:
  assumes "ApproachController_init fm ori dr time_step = Inr c0"
    and "get_state fm pos = (r_mobile, theta_mobile)"
    and "get_state fm targ = (r_target, theta_target)"
  shows "get_control_vel (run_calls c0 cs) pos targ =
     (let orientation_sign = (case ori of CW \<Rightarrow> -1 | CCW \<Rightarrow> 1);
          direction_sign = (case dr of IN \<Rightarrow> -1 | OUT \<Rightarrow> 1);
          err = wrap_to_pi (theta_target - theta_mobile) * orientation_sign;
          r_des = r_target + 0.5 * err * direction_sign;
          thrust_sign = (if r_des > r_mobile then 1 else -1)
      in ([thrust_sign * 0.01 * cos theta_mobile, thrust_sign * 0.01 * sin theta_mobile, 0],
          (run_calls c0 cs)\<lparr>r_diff := Finite (r_target - r_mobile), theta_diff := Finite err\<rparr>))"
proof -
  from init_fields [OF assms(1)] run_calls_fields [of c0 cs]
  have f: "Kp (run_calls c0 cs) = 1 / 2" "vel_from_thrusters (run_calls c0 cs) = 1 / 100"
    "flow_model (run_calls c0 cs) = fm" "flow_ori (run_calls c0 cs) = ori"
    "flow_dir (run_calls c0 cs) = dr"
    by simp_all
  show ?thesis
    by (cases ori; cases dr) (simp_all add: get_control_vel_def f assms(2,3) Let_def)
qed

theorem control_law_witness:
  "ApproachController_init (vortex_flow 0 0) CCW IN (1 / 10) = Inr \<lparr>Kp = 1 / 2, vel_from_thrusters = 1 / 100, flow_model = vortex_flow 0 0,
      flow_ori = CCW, flow_dir = IN, convergence_count = 0,
      convergence_count_threshold = 20, r_diff = PosInf, theta_diff = PosInf\<rparr> \<and>
   get_state (vortex_flow 0 0) [0, 1, 0] = (1, pi / 2) \<and>
   get_state (vortex_flow 0 0) [2, 0, 0] = (2, 0) \<and>
   get_control_vel \<lparr>Kp = 1 / 2, vel_from_thrusters = 1 / 100, flow_model = vortex_flow 0 0,
      flow_ori = CCW, flow_dir = IN, convergence_count = 0,
      convergence_count_threshold = 20, r_diff = PosInf, theta_diff = PosInf\<rparr> [0, 1, 0] [2, 0, 0] =
     ([1 * 0.01 * cos (pi / 2), 1 * 0.01 * sin (pi / 2), 0],
      (\<lparr>Kp = 1 / 2, vel_from_thrusters = 1 / 100, flow_model = vortex_flow 0 0,
      flow_ori = CCW, flow_dir = IN, convergence_count = 0,
      convergence_count_threshold = 20, r_diff = PosInf, theta_diff = PosInf\<rparr>)\<lparr>r_diff := Finite (2 - 1), theta_diff := Finite (wrap_to_pi (0 - pi / 2) * 1)\<rparr>)"
proof -
  have p: "(1 :: real) < 2 + pi / 4"
    using pi_gt_zero by linarith
  have w: "wrap_to_pi (- (pi / 2)) = - (pi / 2)"
    using pi_gt_zero by (intro wrap_to_pi_principal) linarith+
  from p w control_law [OF example_init example_states, of "[]"] show ?thesis
    by (simp add: example_init example_states run_calls_Nil Let_def)
qed

subsection \<open>The norm of the control velocity\<close>



















subsection \<open>Convergence\<close>

lemma evaluate_fresh:
  assumes "r_diff c = PosInf" and "theta_diff c = PosInf" and "convergence_count c = 0"
  shows "evaluate_convergence c = (0 \<ge> convergence_count_threshold c, c)"
proof -
  from assms(3) have "c\<lparr>convergence_count := 0\<rparr> = c"
    by (cases c) simp
  with assms show ?thesis
    by (simp add: evaluate_convergence_def Let_def)
qed

lemma evaluate_only_fresh:
  assumes "r_diff c = PosInf" and "theta_diff c = PosInf" and "convergence_count c = 0"
  shows "run_calls c (replicate n Evaluate_convergence) = c"
proof (induction n)
  case 0
  show ?case by (simp add: run_calls_def)
next
  case (Suc n)
  have "run_calls c (replicate (Suc n) Evaluate_convergence) =
        run_calls (run_call c Evaluate_convergence) (replicate n Evaluate_convergence)"
    by (simp add: run_calls_def)
  also have "run_call c Evaluate_convergence = c"
    by (simp add: evaluate_fresh [OF assms])
  finally show ?case using Suc.IH by simp
qed

lemma evaluate_zero_error:
  "evaluate_convergence (c\<lparr>r_diff := Finite 0, theta_diff := Finite 0\<rparr>) =
     (convergence_count_threshold c \<le> of_int (convergence_count c + 1),
      c\<lparr>r_diff := Finite 0, theta_diff := Finite 0, convergence_count := convergence_count c + 1\<rparr>)"
  by (simp add: evaluate_convergence_def convergence_threshold_def Let_def)

lemma evaluate_unit_error:
  assumes "sqrt (r * r + th * th) = 1"
  shows "evaluate_convergence (c\<lparr>r_diff := Finite r, theta_diff := Finite th\<rparr>) =
     (convergence_count_threshold c \<le> 0,
      c\<lparr>r_diff := Finite r, theta_diff := Finite th, convergence_count := 0\<rparr>)"
  using assms by (simp add: evaluate_convergence_def convergence_threshold_def Let_def)

lemma feed_zeros:
  "fst (feed c (replicate n (0, 0))) =
     map (\<lambda>k. convergence_count_threshold c \<le> of_int (convergence_count c + 1 + int k)) [0..<n] \<and>
   convergence_count (snd (feed c (replicate n (0, 0)))) = convergence_count c + int n \<and>
   convergence_count_threshold (snd (feed c (replicate n (0, 0)))) = convergence_count_threshold c"
proof (induction n arbitrary: c)
  case 0
  show ?case by simp
next
  case (Suc n)
  let ?c1 = "c\<lparr>r_diff := Finite 0, theta_diff := Finite 0,
               convergence_count := convergence_count c + 1\<rparr>"
  have step: "feed c (replicate (Suc n) (0, 0)) =
        (case feed ?c1 (replicate n (0, 0)) of
           (bs, c'') \<Rightarrow> ((convergence_count_threshold c \<le> of_int (convergence_count c + 1)) # bs, c''))"
    by (simp add: evaluate_zero_error)
  have up: "[0..<Suc n] = 0 # map Suc [0..<n]"
    by (simp add: upt_conv_Cons map_Suc_upt del: upt_Suc)
  from Suc.IH [of ?c1] show ?case
    unfolding step up
    by (simp add: split_beta o_def add.assoc add.commute add.left_commute)
qed

lemma feed_append:
  "feed c (xs @ ys) =
     (fst (feed c xs) @ fst (feed (snd (feed c xs)) ys), snd (feed (snd (feed c xs)) ys))"
  by (induction xs arbitrary: c) (auto simp: split_beta)

lemma below_then_reached: "map (\<lambda>k. m \<le> k) [0..<Suc m] = replicate m False @ [True]"
proof -
  have "map (\<lambda>k. m \<le> k) [0..<m] = map (\<lambda>k. False) [0..<m]"
    by (rule map_cong) simp_all
  then show ?thesis
    by (simp add: map_replicate_trivial)
qed

lemma twenty_zeros:
  assumes "convergence_count_threshold c = 20" and "convergence_count c = 0"
  shows "fst (feed c (replicate 20 (0, 0))) = replicate 19 False @ [True]"
proof -
  have "fst (feed c (replicate 20 (0, 0))) = map (\<lambda>k. (20 :: real) \<le> of_int (1 + int k)) [0..<20]"
    using feed_zeros [of c 20] assms by simp
  also have "\<dots> = map (\<lambda>k. 19 \<le> k) [0..<Suc 19]"
    by (rule map_cong) auto
  also have "\<dots> = replicate 19 False @ [True]"
    by (rule below_then_reached)
  finally show ?thesis .
qed

text \<open>
  C4: with the threshold 0.01 and the time step 0.1, starting from a dwell counter of 0,
  twenty consecutive evaluations with both errors 0 give the verdict true at the
  twentieth and false before. One evaluation with a total error of 1 in between, after
  any number \<open>j\<close> of zero-error evaluations, gives false and puts the counter back, so that
  the verdict is true again only at the twentieth zero-error evaluation after it.
\<close>

theorem convergence_dwell:
  assumes "ApproachController_init fm ori dr (1 / 10) = Inr c0"
    and "convergence_count (run_calls c0 cs) = 0"
    and "sqrt (r * r + th * th) = 1"
  shows "convergence_threshold = 0.01 \<and>
         fst (feed (run_calls c0 cs) (replicate 20 (0, 0))) = replicate 19 False @ [True] \<and>
         fst (feed (run_calls c0 cs) (replicate j (0, 0) @ [(r, th)] @ replicate 20 (0, 0))) =
           map (\<lambda>k. 20 \<le> Suc k) [0..<j] @ [False] @ replicate 19 False @ [True]"
proof -
  let ?c = "run_calls c0 cs"
  from init_fields [OF assms(1)] run_calls_fields [of c0 cs]
  have thr: "convergence_count_threshold ?c = 20"
    by simp
  have first: "fst (feed ?c (replicate 20 (0, 0))) = replicate 19 False @ [True]"
    by (rule twenty_zeros [OF thr assms(2)])
  let ?c1 = "snd (feed ?c (replicate j (0, 0)))"
  from feed_zeros [of ?c j] thr assms(2)
  have pre: "fst (feed ?c (replicate j (0, 0))) = map (\<lambda>k. (20 :: real) \<le> of_int (1 + int k)) [0..<j]"
    and thr1: "convergence_count_threshold ?c1 = 20"
    by simp_all
  have pre': "map (\<lambda>k. (20 :: real) \<le> of_int (1 + int k)) [0..<j] = map (\<lambda>k. 20 \<le> Suc k) [0..<j]"
    by (rule map_cong) auto
  let ?c2 = "?c1\<lparr>r_diff := Finite r, theta_diff := Finite th, convergence_count := 0\<rparr>"
  have mid: "feed ?c1 ((r, th) # replicate 20 (0, 0)) =
               (False # fst (feed ?c2 (replicate 20 (0, 0))), snd (feed ?c2 (replicate 20 (0, 0))))"
    using thr1 by (simp add: evaluate_unit_error [OF assms(3)] split_beta)
  have last: "fst (feed ?c2 (replicate 20 (0, 0))) = replicate 19 False @ [True]"
    by (rule twenty_zeros) (simp_all add: thr1)
  have "fst (feed ?c (replicate j (0, 0) @ [(r, th)] @ replicate 20 (0, 0))) =
          fst (feed ?c (replicate j (0, 0))) @ fst (feed ?c1 ((r, th) # replicate 20 (0, 0)))"
    by (simp add: feed_append del: feed.simps)
  with pre pre' mid last first show ?thesis
    by (simp add: convergence_threshold_def)
qed

theorem convergence_dwell_witness:
  "ApproachController_init (vortex_flow 0 0) CCW IN (1 / 10) = Inr \<lparr>Kp = 1 / 2, vel_from_thrusters = 1 / 100, flow_model = vortex_flow 0 0,
      flow_ori = CCW, flow_dir = IN, convergence_count = 0,
      convergence_count_threshold = 20, r_diff = PosInf, theta_diff = PosInf\<rparr> \<and>
   convergence_count (run_calls \<lparr>Kp = 1 / 2, vel_from_thrusters = 1 / 100, flow_model = vortex_flow 0 0,
      flow_ori = CCW, flow_dir = IN, convergence_count = 0,
      convergence_count_threshold = 20, r_diff = PosInf, theta_diff = PosInf\<rparr> []) = 0 \<and>
   sqrt (1 * 1 + 0 * 0) = (1 :: real) \<and>
   fst (feed \<lparr>Kp = 1 / 2, vel_from_thrusters = 1 / 100, flow_model = vortex_flow 0 0,
      flow_ori = CCW, flow_dir = IN, convergence_count = 0,
      convergence_count_threshold = 20, r_diff = PosInf, theta_diff = PosInf\<rparr> (replicate 20 (0, 0))) = replicate 19 False @ [True] \<and>
   fst (feed \<lparr>Kp = 1 / 2, vel_from_thrusters = 1 / 100, flow_model = vortex_flow 0 0,
      flow_ori = CCW, flow_dir = IN, convergence_count = 0,
      convergence_count_threshold = 20, r_diff = PosInf, theta_diff = PosInf\<rparr> (replicate 3 (0, 0) @ [(1, 0)] @ replicate 20 (0, 0))) =
     [False, False, False] @ [False] @ replicate 19 False @ [True]"
  using convergence_dwell [OF example_init, of "[]" 1 0 3]
  by (simp add: example_init run_calls_Nil upt_rec del: feed.simps)

text \<open>
  C7, as the claim states it, fails for a negative time step: the threshold
  \<open>time_to_convergence / time_step\<close> is then negative, and the counter 0 of a fresh
  controller already reaches it.
\<close>

theorem fresh_controller_converged_counterexample:
  "ApproachController_init (vortex_flow 0 0) CCW IN (- 1) = Inr \<lparr>Kp = 1 / 2, vel_from_thrusters = 1 / 100, flow_model = vortex_flow 0 0,
      flow_ori = CCW, flow_dir = IN, convergence_count = 0,
      convergence_count_threshold = - 2, r_diff = PosInf, theta_diff = PosInf\<rparr> \<and>
   evaluate_convergence \<lparr>Kp = 1 / 2, vel_from_thrusters = 1 / 100, flow_model = vortex_flow 0 0,
      flow_ori = CCW, flow_dir = IN, convergence_count = 0,
      convergence_count_threshold = - 2, r_diff = PosInf, theta_diff = PosInf\<rparr> = (True, \<lparr>Kp = 1 / 2, vel_from_thrusters = 1 / 100, flow_model = vortex_flow 0 0,
      flow_ori = CCW, flow_dir = IN, convergence_count = 0,
      convergence_count_threshold = - 2, r_diff = PosInf, theta_diff = PosInf\<rparr>)"
  by (simp add: ApproachController_init_def time_to_convergence_def evaluate_convergence_def
        Let_def)

text \<open>
  C7, amended: a controller constructed with a positive time step, on which
  \<open>get_control_vel\<close> has not been called, answers false to \<open>evaluate_convergence\<close>, the
  first time and after any number of earlier evaluations: the stored errors are infinite
  and the counter stays 0.
\<close>

theorem fresh_controller_not_converged:
  assumes "0 < time_step"
  shows "\<exists>c. ApproachController_init fm ori dr time_step = Inr c \<and>
             (\<forall>n. fst (evaluate_convergence (run_calls c (replicate n Evaluate_convergence)))
                    = False) \<and>
             fst (evaluate_convergence c) = False"
proof -
  from assms obtain c where c: "ApproachController_init fm ori dr time_step = Inr c"
    by (simp add: ApproachController_init_def)
  from init_fields [OF c]
  have f: "r_diff c = PosInf" "theta_diff c = PosInf" "convergence_count c = 0"
    and thr: "convergence_count_threshold c = 2 / time_step"
    by simp_all
  from assms thr have "\<not> 0 \<ge> convergence_count_threshold c"
    by simp
  then have "fst (evaluate_convergence c) = False"
    by (simp add: evaluate_fresh [OF f])
  with c show ?thesis
    by (simp add: evaluate_only_fresh [OF f])
qed

theorem fresh_controller_not_converged_witness:
  "(0 :: real) < 1 / 10 \<and>
   ApproachController_init (vortex_flow 0 0) CCW IN (1 / 10) = Inr \<lparr>Kp = 1 / 2, vel_from_thrusters = 1 / 100, flow_model = vortex_flow 0 0,
      flow_ori = CCW, flow_dir = IN, convergence_count = 0,
      convergence_count_threshold = 20, r_diff = PosInf, theta_diff = PosInf\<rparr> \<and>
   fst (evaluate_convergence \<lparr>Kp = 1 / 2, vel_from_thrusters = 1 / 100, flow_model = vortex_flow 0 0,
      flow_ori = CCW, flow_dir = IN, convergence_count = 0,
      convergence_count_threshold = 20, r_diff = PosInf, theta_diff = PosInf\<rparr>) = False"
  using fresh_controller_not_converged [of "1 / 10" "vortex_flow 0 0" CCW IN]
  by (simp add: example_init)

end
